theory Spec2Isabelle
  imports Main "HOL-Library.Word"
begin

section \<open>The congruence base class of libsemigroups (cong-base.cpp)\<close>

text \<open>
  \<^verbatim>\<open>CongBase\<close> is an abstract class: it keeps the generators, the generating pairs, the
  parent and the quotient semigroup, and the non-trivial classes, and it calls virtual
  member functions that the derived class (Todd-Coxeter, Knuth-Bendix, ...) implements.
  The embedding keeps the object's fields in a record, passes the record through every
  member function, and returns an exception as a value together with the state the object
  is left in. The virtual member functions of the derived class and the member functions
  of \<^verbatim>\<open>Runner\<close> are a parameter of every function that calls them.
\<close>

subsection \<open>Types\<close>

type_synonym size_t = "64 word"
type_synonym letter_type = size_t
type_synonym word_type = "letter_type list"
type_synonym relation_type = "word_type \<times> word_type"
type_synonym class_index_type = size_t

text \<open>
  Modelled from the spec: the constant \<^verbatim>\<open>UNDEFINED\<close> of constants.hpp is not in
  the source. The specification describes it as the sentinel ``not yet determined'',
  which is no class index and no number of generators; here it is the largest value of
  \<^verbatim>\<open>size_t\<close>. The general theorems below hold whatever the value is; only the
  evaluation of the example uses that 0, 1, 2 and 5 differ from it.
\<close>

definition UNDEFINED :: size_t where
  "UNDEFINED = - 1"

text \<open>
  Modelled from the spec: the constant \<^verbatim>\<open>POSITIVE_INFINITY\<close> of constants.hpp is not
  in the source either. It is what \<^verbatim>\<open>nr_classes\<close> returns when the number of classes
  is not finite; here it is the value of \<^verbatim>\<open>size_t\<close> just below \<^verbatim>\<open>UNDEFINED\<close>.
\<close>

definition POSITIVE_INFINITY :: size_t where
  "POSITIVE_INFINITY = - 2"

text \<open>
  \<^verbatim>\<open>std::vector<std::vector<word_type>>::max_size()\<close>, the length above which the
  standard library refuses to build the vector of classes. The standard leaves the value
  to the implementation; this is the one of a 64-bit platform whose inner vector takes 24
  bytes, \<open>(2^63 - 1) div 24\<close>. The embedding takes the memory to suffice for every
  vector up to that length.
\<close>

definition vector_max_size :: nat where
  "vector_max_size = 384307168202282325"

datatype congruence_type = LEFT | RIGHT | TWOSIDED

datatype result_type = TRUE | FALSE | UNKNOWN

text \<open>
  Every \<^verbatim>\<open>throw LIBSEMIGROUPS_EXCEPTION(msg)\<close> of the file is one constructor, named
  after its message. \<open>InvalidLetter l w n\<close> carries what the message prints: the letter,
  the word and the number of generators. \<open>DerivedException\<close> is an exception thrown by a
  virtual member function of the derived class. \<open>LengthError\<close> is the
  \<^verbatim>\<open>std::length_error\<close> that \<^verbatim>\<open>std::vector::assign\<close> throws when it is asked for
  more than \<^verbatim>\<open>max_size()\<close> elements. \<open>UndefinedBehaviour\<close> is not an exception: it
  marks a call through a pointer to a deleted object or a write past the end of a vector,
  after which C++ promises nothing.
\<close>

datatype error =
    GeneratorsSetTwice
  | NoGeneratorsDefined
  | InvalidLetter letter_type word_type size_t
  | NotTwoSided
  | QuotientInfinite
  | ParentNotDefined
  | NoParentForClasses
  | DerivedException string
  | LengthError
  | UndefinedBehaviour

text \<open>
  A pointer to a \<^verbatim>\<open>FroidurePinBase\<close> is an address or \<open>None\<close> for \<^verbatim>\<open>nullptr\<close>.
\<close>

type_synonym address = nat
type_synonym pointer = "address option"

text \<open>
  Modelled from the spec: \<^verbatim>\<open>FroidurePinBase\<close> is declared in froidure-pin-base.hpp,
  which is not in the source. The member functions that cong-base.cpp calls
  (\<^verbatim>\<open>size\<close>, \<^verbatim>\<open>factorisation\<close>, \<^verbatim>\<open>equal_to\<close>, \<^verbatim>\<open>nr_generators\<close>) are the fields of
  the object. Positions and sizes are natural numbers: the loop that uses them counts
  from 0 up to the size and never wraps.
\<close>

record froidure_pin =
  fp_size :: nat
  fp_factorisation :: "nat \<Rightarrow> word_type"
  fp_equal_to :: "word_type \<Rightarrow> word_type \<Rightarrow> bool"
  fp_nr_generators :: size_t

text \<open>
  The state: the fields of \<^verbatim>\<open>CongBase\<close> under their names (without the leading
  underscore), the state of the derived class and of \<^verbatim>\<open>Runner\<close> in \<open>derived\<close>, the
  store of live \<^verbatim>\<open>FroidurePinBase\<close> objects, and the addresses that \<^verbatim>\<open>delete\<close> was
  applied to, in order.
\<close>

record 'x state =
  non_trivial_classes :: "word_type list list"
  init_ntc_done :: bool
  gen_pairs :: "relation_type list"
  nrgens :: size_t
  parent :: pointer
  quotient :: pointer
  cong_type :: congruence_type
  derived :: 'x
  store :: "address \<Rightarrow> froidure_pin option"
  deleted :: "address list"

text \<open>
  The virtual member functions that cong-base.cpp calls and does not define (or defines
  only as an overridable default), and \<^verbatim>\<open>Runner\<close>'s \<^verbatim>\<open>finished\<close> and
  \<^verbatim>\<open>set_finished\<close>. A const member function reads the derived state; any other one
  returns its result or an exception, and the derived state it leaves.
  \<^verbatim>\<open>quotient_impl\<close> may allocate, so it also takes and returns the store.
  The derived class is taken to act on its own state: it reaches the fields of
  \<^verbatim>\<open>CongBase\<close> only through the member functions below (the fields are private, but for
  \<^verbatim>\<open>_non_trivial_classes\<close>, which is protected and which the derived class is taken
  not to write behind \<^verbatim>\<open>CongBase\<close>'s back).
\<close>

record 'x derived_class =
  word_to_class_index :: "word_type \<Rightarrow> 'x \<Rightarrow> (error + class_index_type) \<times> 'x"
  const_word_to_class_index :: "word_type \<Rightarrow> 'x \<Rightarrow> class_index_type"
  nr_classes :: "'x \<Rightarrow> (error + size_t) \<times> 'x"
  add_pair_impl :: "word_type \<Rightarrow> word_type \<Rightarrow> 'x \<Rightarrow> (error + unit) \<times> 'x"
  set_nr_generators_impl :: "size_t \<Rightarrow> 'x \<Rightarrow> (error + unit) \<times> 'x"
  quotient_impl :: "'x \<Rightarrow> (address \<Rightarrow> froidure_pin option)
                      \<Rightarrow> (error + pointer) \<times> 'x \<times> (address \<Rightarrow> froidure_pin option)"
  is_quotient_obviously_infinite :: "'x \<Rightarrow> (error + bool) \<times> 'x"
  finished :: "'x \<Rightarrow> bool"
  set_finished :: "bool \<Rightarrow> 'x \<Rightarrow> 'x"

subsection \<open>Constructor and destructor\<close>

text \<open>
  \<^verbatim>\<open>CongBase::CongBase(congruence_type type)\<close>; the derived state and the store are
  what they are when the object is built.
\<close>

definition CongBase :: "congruence_type \<Rightarrow> 'x \<Rightarrow> (address \<Rightarrow> froidure_pin option) \<Rightarrow> 'x state" where
  "CongBase typ x h =
     \<lparr> non_trivial_classes = [], init_ntc_done = False, gen_pairs = [],
       nrgens = UNDEFINED, parent = None, quotient = None, cong_type = typ,
       derived = x, store = h, deleted = [] \<rparr>"

text \<open>
  \<^verbatim>\<open>delete p\<close>: nothing for \<^verbatim>\<open>nullptr\<close>; otherwise the object leaves the store and
  the address is appended to \<open>deleted\<close> (an address that occurs twice there was
  released twice).
\<close>

definition delete :: "pointer \<Rightarrow> 'x state \<Rightarrow> 'x state" where
  "delete p s =
     (case p of
        None \<Rightarrow> s
      | Some a \<Rightarrow> s\<lparr> store := (store s)(a := None), deleted := deleted s @ [a] \<rparr>)"

text \<open>\<^verbatim>\<open>CongBase::~CongBase()\<close>\<close>

definition destructor :: "'x state \<Rightarrow> 'x state" where
  "destructor s = (if parent s \<noteq> quotient s then delete (quotient s) s else s)"

subsection \<open>Accessors\<close>

definition nr_generators :: "'x state \<Rightarrow> size_t" where
  "nr_generators s = nrgens s"

definition nr_generating_pairs :: "'x state \<Rightarrow> size_t" where
  "nr_generating_pairs s = of_nat (length (gen_pairs s))"

definition has_parent_semigroup :: "'x state \<Rightarrow> bool" where
  "has_parent_semigroup s = (parent s \<noteq> None)"

definition parent_semigroup :: "'x state \<Rightarrow> error + pointer" where
  "parent_semigroup s =
     (if \<not> has_parent_semigroup s then Inl ParentNotDefined else Inr (parent s))"

definition has_quotient_semigroup :: "'x state \<Rightarrow> bool" where
  "has_quotient_semigroup s = (quotient s \<noteq> None)"

definition type :: "'x state \<Rightarrow> congruence_type" where
  "type s = cong_type s"

subsection \<open>Membership\<close>

text \<open>
  In \<^verbatim>\<open>contains\<close> and in \<^verbatim>\<open>less\<close> the two calls of \<^verbatim>\<open>word_to_class_index\<close> are
  the operands of one \<^verbatim>\<open>==\<close> or \<^verbatim>\<open><\<close>: C++ runs one call after the other and leaves
  open which comes first. The order is a parameter of both functions.
\<close>

datatype evaluation_order = LeftOperandFirst | RightOperandFirst

text \<open>
  The class indices of \<open>w1\<close> and of \<open>w2\<close>, in this order, from the two calls made in
  the given order; an exception of the first call prevents the second.
\<close>

fun class_indices :: "'x derived_class \<Rightarrow> evaluation_order \<Rightarrow> word_type \<Rightarrow> word_type \<Rightarrow> 'x
    \<Rightarrow> (error + class_index_type \<times> class_index_type) \<times> 'x" where
  "class_indices d LeftOperandFirst w1 w2 x =
     (case word_to_class_index d w1 x of
        (Inl e, x1) \<Rightarrow> (Inl e, x1)
      | (Inr i, x1) \<Rightarrow>
          (case word_to_class_index d w2 x1 of
             (Inl e, x2) \<Rightarrow> (Inl e, x2)
           | (Inr j, x2) \<Rightarrow> (Inr (i, j), x2)))"
| "class_indices d RightOperandFirst w1 w2 x =
     (case word_to_class_index d w2 x of
        (Inl e, x1) \<Rightarrow> (Inl e, x1)
      | (Inr j, x1) \<Rightarrow>
          (case word_to_class_index d w1 x1 of
             (Inl e, x2) \<Rightarrow> (Inl e, x2)
           | (Inr i, x2) \<Rightarrow> (Inr (i, j), x2)))"

text \<open>
  \<^verbatim>\<open>CongBase::contains\<close>. The right operand of \<^verbatim>\<open>||\<close> is evaluated only when the
  words differ.
\<close>

definition contains :: "'x derived_class \<Rightarrow> evaluation_order \<Rightarrow> word_type \<Rightarrow> word_type \<Rightarrow> 'x state \<Rightarrow> (error + bool) \<times> 'x state" where
  "contains d ord w1 w2 s =
     (if w1 = w2 then (Inr True, s)
      else
        (case class_indices d ord w1 w2 (derived s) of
           (Inl e, x) \<Rightarrow> (Inl e, s\<lparr>derived := x\<rparr>)
         | (Inr (i, j), x) \<Rightarrow> (Inr (i = j), s\<lparr>derived := x\<rparr>)))"

text \<open>\<^verbatim>\<open>CongBase::const_contains\<close>, a const member function.\<close>

definition const_contains :: "'x derived_class \<Rightarrow> word_type \<Rightarrow> word_type \<Rightarrow> 'x state \<Rightarrow> result_type" where
  "const_contains d u v s =
     (if const_word_to_class_index d u (derived s) = UNDEFINED
         \<or> const_word_to_class_index d v (derived s) = UNDEFINED
      then UNKNOWN
      else if const_word_to_class_index d u (derived s)
              = const_word_to_class_index d v (derived s)
      then TRUE
      else if finished d (derived s) then FALSE
      else UNKNOWN)"

text \<open>\<^verbatim>\<open>CongBase::less\<close>\<close>

definition less_words :: "'x derived_class \<Rightarrow> evaluation_order \<Rightarrow> word_type \<Rightarrow> word_type \<Rightarrow> 'x state \<Rightarrow> (error + bool) \<times> 'x state" where
  "less_words d ord w1 w2 s =
     (case class_indices d ord w1 w2 (derived s) of
        (Inl e, x) \<Rightarrow> (Inl e, s\<lparr>derived := x\<rparr>)
      | (Inr (i, j), x) \<Rightarrow> (Inr (i < j), s\<lparr>derived := x\<rparr>))"

text \<open>
  The defaults that \<^verbatim>\<open>CongBase\<close> gives for four virtual member functions:
  \<^verbatim>\<open>is_quotient_obviously_finite\<close>, \<^verbatim>\<open>is_quotient_obviously_infinite\<close>,
  \<^verbatim>\<open>const_word_to_class_index\<close> and \<^verbatim>\<open>set_nr_generators_impl\<close>.
\<close>

definition CongBase_is_quotient_obviously_finite :: "'x \<Rightarrow> (error + bool) \<times> 'x" where
  "CongBase_is_quotient_obviously_finite x = (Inr False, x)"

definition CongBase_is_quotient_obviously_infinite :: "'x \<Rightarrow> (error + bool) \<times> 'x" where
  "CongBase_is_quotient_obviously_infinite x = (Inr False, x)"

definition CongBase_const_word_to_class_index :: "word_type \<Rightarrow> 'x \<Rightarrow> class_index_type" where
  "CongBase_const_word_to_class_index w x = UNDEFINED"

definition CongBase_set_nr_generators_impl :: "size_t \<Rightarrow> 'x \<Rightarrow> (error + unit) \<times> 'x" where
  "CongBase_set_nr_generators_impl n x = (Inr (), x)"

subsection \<open>Generators and validation\<close>

text \<open>\<^verbatim>\<open>CongBase::set_nr_generators\<close>\<close>

definition set_nr_generators :: "'x derived_class \<Rightarrow> size_t \<Rightarrow> 'x state \<Rightarrow> (error + unit) \<times> 'x state" where
  "set_nr_generators d n s =
     (if nr_generators s \<noteq> UNDEFINED then (Inl GeneratorsSetTwice, s)
      else
        (let s1 = s\<lparr>nrgens := n\<rparr> in
         case set_nr_generators_impl d n (derived s1) of
           (r, x) \<Rightarrow> (r, s1\<lparr>derived := x\<rparr>)))"

text \<open>\<^verbatim>\<open>CongBase::validate_letter\<close>; \<open><\<close> is the unsigned order of \<^verbatim>\<open>size_t\<close>.\<close>

definition validate_letter :: "letter_type \<Rightarrow> 'x state \<Rightarrow> error + bool" where
  "validate_letter c s =
     (if nr_generators s = UNDEFINED then Inl NoGeneratorsDefined
      else Inr (c < nrgens s))"

text \<open>
  \<^verbatim>\<open>CongBase::validate_word\<close>: the loop over the letters of \<open>w\<close>; the first argument is
  the whole word, for the message.
\<close>

fun validate_letters :: "word_type \<Rightarrow> word_type \<Rightarrow> 'x state \<Rightarrow> error + unit" where
  "validate_letters w [] s = Inr ()"
| "validate_letters w (l # ls) s =
     (case validate_letter l s of
        Inl e \<Rightarrow> Inl e
      | Inr ok \<Rightarrow>
          if \<not> ok then Inl (InvalidLetter l w (nrgens s))
          else validate_letters w ls s)"

definition validate_word :: "word_type \<Rightarrow> 'x state \<Rightarrow> error + unit" where
  "validate_word w s = validate_letters w w s"

text \<open>\<^verbatim>\<open>CongBase::validate_relation\<close>, on two words and on a pair.\<close>

definition validate_relation :: "word_type \<Rightarrow> word_type \<Rightarrow> 'x state \<Rightarrow> error + unit" where
  "validate_relation l r s =
     (case validate_word l s of Inl e \<Rightarrow> Inl e | Inr u \<Rightarrow> validate_word r s)"

definition validate_relation_pair :: "relation_type \<Rightarrow> 'x state \<Rightarrow> error + unit" where
  "validate_relation_pair rel s = validate_relation (fst rel) (snd rel) s"

subsection \<open>Generating pairs\<close>

text \<open>
  A call through a pointer: the object at the address, or undefined behaviour when the
  pointer is null or the object was deleted.
\<close>

definition deref :: "pointer \<Rightarrow> (address \<Rightarrow> froidure_pin option) \<Rightarrow> error + froidure_pin" where
  "deref p h =
     (case p of
        None \<Rightarrow> Inl UndefinedBehaviour
      | Some a \<Rightarrow> (case h a of None \<Rightarrow> Inl UndefinedBehaviour | Some fp \<Rightarrow> Inr fp))"

text \<open>
  The test of lines 109 to 113 of \<^verbatim>\<open>add_pair\<close>:
  \<^verbatim>\<open>has_parent_semigroup() && parent_semigroup()->equal_to(u, v)\<close>.
\<close>

definition parent_equal_to :: "word_type \<Rightarrow> word_type \<Rightarrow> 'x state \<Rightarrow> error + bool" where
  "parent_equal_to u v s =
     (if has_parent_semigroup s then
        (case parent_semigroup s of
           Inl e \<Rightarrow> Inl e
         | Inr p \<Rightarrow>
             (case deref p (store s) of
                Inl e \<Rightarrow> Inl e
              | Inr fp \<Rightarrow> Inr (fp_equal_to fp u v)))
      else Inr False)"

text \<open>\<^verbatim>\<open>CongBase::add_pair(word_type const&, word_type const&)\<close>\<close>

definition add_pair :: "'x derived_class \<Rightarrow> word_type \<Rightarrow> word_type \<Rightarrow> 'x state \<Rightarrow> (error + unit) \<times> 'x state" where
  "add_pair d u v s =
     (case validate_word u s of
        Inl e \<Rightarrow> (Inl e, s)
      | Inr _ \<Rightarrow>
     (case validate_word v s of
        Inl e \<Rightarrow> (Inl e, s)
      | Inr _ \<Rightarrow>
     if u = v then (Inr (), s)
     else
       (case parent_equal_to u v s of
          Inl e \<Rightarrow> (Inl e, s)
        | Inr True \<Rightarrow> (Inr (), s)
        | Inr False \<Rightarrow>
            (let s1 = s\<lparr>gen_pairs := gen_pairs s @ [(u, v)]\<rparr>;
                 s2 = delete (quotient s1) s1;
                 s3 = s2\<lparr>quotient := None\<rparr>;
                 s4 = s3\<lparr>derived := set_finished d False (derived s3)\<rparr>
             in case add_pair_impl d u v (derived s4) of
                  (r, x) \<Rightarrow> (r, s4\<lparr>derived := x\<rparr>)))))"

text \<open>
  The iterators over the generating pairs: an iterator is the part of the sequence from
  its position on.
\<close>

definition cbegin_generating_pairs :: "'x state \<Rightarrow> relation_type list" where
  "cbegin_generating_pairs s = gen_pairs s"

definition cend_generating_pairs :: "'x state \<Rightarrow> relation_type list" where
  "cend_generating_pairs s = []"

subsection \<open>Parent and quotient\<close>

text \<open>\<^verbatim>\<open>CongBase::quotient_semigroup\<close>\<close>

definition quotient_semigroup :: "'x derived_class \<Rightarrow> 'x state \<Rightarrow> (error + pointer) \<times> 'x state" where
  "quotient_semigroup d s =
     (if type s \<noteq> TWOSIDED then (Inl NotTwoSided, s)
      else
        (case is_quotient_obviously_infinite d (derived s) of
           (Inl e, x) \<Rightarrow> (Inl e, s\<lparr>derived := x\<rparr>)
         | (Inr obviously_infinite, x) \<Rightarrow>
             (let s1 = s\<lparr>derived := x\<rparr> in
              if obviously_infinite then (Inl QuotientInfinite, s1)
              else if quotient s1 = None then
                (case quotient_impl d (derived s1) (store s1) of
                   (Inl e, x2, h) \<Rightarrow> (Inl e, s1\<lparr>derived := x2, store := h\<rparr>)
                 | (Inr q, x2, h) \<Rightarrow>
                     (Inr q, s1\<lparr>derived := x2, store := h, quotient := q\<rparr>))
              else (Inr (quotient s1), s1))))"

text \<open>
  \<^verbatim>\<open>CongBase::set_parent_semigroup\<close>. \<^verbatim>\<open>LIBSEMIGROUPS_ASSERT\<close> expands to nothing
  unless the library is built for debugging; the embedding is of the release build.
\<close>

definition set_parent_semigroup :: "pointer \<Rightarrow> 'x state \<Rightarrow> 'x state" where
  "set_parent_semigroup prnt s =
     (if prnt = parent s then s
      else
        (let s1 = s\<lparr>parent := prnt\<rparr> in
         if gen_pairs s1 = [] then s1\<lparr>quotient := prnt\<rparr> else s1))"

subsection \<open>Non-trivial classes\<close>

text \<open>
  The loop of \<^verbatim>\<open>init_non_trivial_classes\<close> from position \<open>pos\<close> on, with the
  parent's object \<open>fp\<close>: the loop changes neither the parent pointer nor the store.
\<close>

function ntc_scan :: "'x derived_class \<Rightarrow> froidure_pin \<Rightarrow> nat \<Rightarrow> 'x state \<Rightarrow> (error + unit) \<times> 'x state" where
  "ntc_scan d fp pos s =
     (if pos < fp_size fp then
        (let w = fp_factorisation fp pos in
         case word_to_class_index d w (derived s) of
           (Inl e, x) \<Rightarrow> (Inl e, s\<lparr>derived := x\<rparr>)
         | (Inr i, x) \<Rightarrow>
             (let s1 = s\<lparr>derived := x\<rparr> in
              if unat i < length (non_trivial_classes s1) then
                ntc_scan d fp (Suc pos)
                  (s1\<lparr>non_trivial_classes :=
                        (non_trivial_classes s1)
                          [unat i := non_trivial_classes s1 ! unat i @ [w]]\<rparr>)
              else (Inl UndefinedBehaviour, s1)))
      else (Inr (), s))"
  by pat_completeness auto
termination
  by (relation "measure (\<lambda>(d, fp, pos, s). fp_size fp - pos)") auto

declare ntc_scan.simps [simp del]

text \<open>
  \<^verbatim>\<open>CongBase::init_non_trivial_classes\<close>. The assertion that \<^verbatim>\<open>nr_classes()\<close> is not
  \<^verbatim>\<open>POSITIVE_INFINITY\<close> expands to nothing in the release build, so
  \<^verbatim>\<open>nr_classes\<close> is called once. \<^verbatim>\<open>assign\<close> throws when it is asked for more than
  \<^verbatim>\<open>max_size()\<close> empty classes and then leaves the vector as it was; the flag is
  already set.
\<close>

definition init_non_trivial_classes :: "'x derived_class \<Rightarrow> 'x state \<Rightarrow> (error + unit) \<times> 'x state" where
  "init_non_trivial_classes d s =
     (if init_ntc_done s then (Inr (), s)
      else if parent s = None then (Inl NoParentForClasses, s)
      else
        (let s1 = s\<lparr>init_ntc_done := True\<rparr> in
         case nr_classes d (derived s1) of
           (Inl e, x) \<Rightarrow> (Inl e, s1\<lparr>derived := x\<rparr>)
         | (Inr n, x) \<Rightarrow>
             if vector_max_size < unat n then (Inl LengthError, s1\<lparr>derived := x\<rparr>)
             else
             (let s2 = s1\<lparr>derived := x, non_trivial_classes := replicate (unat n) []\<rparr> in
              case deref (parent s2) (store s2) of
                Inl e \<Rightarrow> (Inl e, s2)
              | Inr fp \<Rightarrow>
                  (case ntc_scan d fp 0 s2 of
                     (Inl e, s3) \<Rightarrow> (Inl e, s3)
                   | (Inr u, s3) \<Rightarrow>
                       (Inr (),
                        s3\<lparr>non_trivial_classes :=
                             filter (\<lambda>klass. \<not> length klass \<le> 1) (non_trivial_classes s3)\<rparr>)))))"

text \<open>
  \<^verbatim>\<open>cbegin_ntc\<close>, \<^verbatim>\<open>cend_ntc\<close> and \<^verbatim>\<open>nr_non_trivial_classes\<close>, with
  \<^verbatim>\<open>CongBase\<close>'s own \<^verbatim>\<open>init_non_trivial_classes\<close>.
\<close>

definition cbegin_ntc :: "'x derived_class \<Rightarrow> 'x state \<Rightarrow> (error + word_type list list) \<times> 'x state" where
  "cbegin_ntc d s =
     (case init_non_trivial_classes d s of
        (Inl e, s1) \<Rightarrow> (Inl e, s1)
      | (Inr u, s1) \<Rightarrow> (Inr (non_trivial_classes s1), s1))"

definition cend_ntc :: "'x derived_class \<Rightarrow> 'x state \<Rightarrow> (error + word_type list list) \<times> 'x state" where
  "cend_ntc d s =
     (case init_non_trivial_classes d s of
        (Inl e, s1) \<Rightarrow> (Inl e, s1)
      | (Inr u, s1) \<Rightarrow> (Inr [], s1))"

definition nr_non_trivial_classes :: "'x derived_class \<Rightarrow> 'x state \<Rightarrow> (error + size_t) \<times> 'x state" where
  "nr_non_trivial_classes d s =
     (case init_non_trivial_classes d s of
        (Inl e, s1) \<Rightarrow> (Inl e, s1)
      | (Inr u, s1) \<Rightarrow> (Inr (of_nat (length (non_trivial_classes s1))), s1))"

subsection \<open>The name of a congruence type\<close>

definition STRING_TWOSIDED :: string where
  "STRING_TWOSIDED = ''two-sided''"

definition STRING_LEFT :: string where
  "STRING_LEFT = ''left''"

definition STRING_RIGHT :: string where
  "STRING_RIGHT = ''right''"

fun congruence_type_to_string :: "congruence_type \<Rightarrow> string" where
  "congruence_type_to_string TWOSIDED = STRING_TWOSIDED"
| "congruence_type_to_string LEFT = STRING_LEFT"
| "congruence_type_to_string RIGHT = STRING_RIGHT"

subsection \<open>Sequences of calls\<close>

text \<open>
  What a client and the derived class can do to the object between two moments: the
  member functions above that change the state, and \<open>DerivedStep f\<close> for a member
  function of the derived class or of \<^verbatim>\<open>Runner\<close> (such as \<^verbatim>\<open>run\<close>) that changes the
  derived state. The const member functions change nothing and are left out. An
  exception is caught by the caller; the object stays as the call left it.
\<close>

datatype 'x call =
    Contains evaluation_order word_type word_type
  | Less evaluation_order word_type word_type
  | SetNrGenerators size_t
  | AddPair word_type word_type
  | CbeginNtc
  | CendNtc
  | NrNonTrivialClasses
  | QuotientSemigroup
  | SetParentSemigroup pointer
  | DerivedStep "'x \<Rightarrow> 'x"

fun do_call :: "'x derived_class \<Rightarrow> 'x call \<Rightarrow> 'x state \<Rightarrow> 'x state" where
  "do_call d (Contains ord w1 w2) s = snd (contains d ord w1 w2 s)"
| "do_call d (Less ord w1 w2) s = snd (less_words d ord w1 w2 s)"
| "do_call d (SetNrGenerators n) s = snd (set_nr_generators d n s)"
| "do_call d (AddPair u v) s = snd (add_pair d u v s)"
| "do_call d CbeginNtc s = snd (cbegin_ntc d s)"
| "do_call d CendNtc s = snd (cend_ntc d s)"
| "do_call d NrNonTrivialClasses s = snd (nr_non_trivial_classes d s)"
| "do_call d QuotientSemigroup s = snd (quotient_semigroup d s)"
| "do_call d (SetParentSemigroup prnt) s = set_parent_semigroup prnt s"
| "do_call d (DerivedStep f) s = s\<lparr>derived := f (derived s)\<rparr>"

fun do_calls :: "'x derived_class \<Rightarrow> 'x call list \<Rightarrow> 'x state \<Rightarrow> 'x state" where
  "do_calls d [] s = s"
| "do_calls d (c # cs) s = do_calls d cs (do_call d c s)"

text \<open>
  The calls that leave a cached quotient alone. The two that do not: an \<open>add_pair\<close>
  that records a pair, and a \<open>set_parent_semigroup\<close> with a new parent while there is
  no generating pair. \<open>cache_kept d cs s\<close> says that no call of the sequence \<open>cs\<close>,
  run from \<open>s\<close>, is one of these two.
\<close>

fun keeps_cache :: "'x derived_class \<Rightarrow> 'x call \<Rightarrow> 'x state \<Rightarrow> bool" where
  "keeps_cache d (AddPair u v) s = (gen_pairs (snd (add_pair d u v s)) = gen_pairs s)"
| "keeps_cache d (SetParentSemigroup prnt) s = (prnt = parent s \<or> gen_pairs s \<noteq> [])"
| "keeps_cache d c s = True"

fun cache_kept :: "'x derived_class \<Rightarrow> 'x call list \<Rightarrow> 'x state \<Rightarrow> bool" where
  "cache_kept d [] s = True"
| "cache_kept d (c # cs) s = (keeps_cache d c s \<and> cache_kept d cs (do_call d c s))"

subsection \<open>The scan of the non-trivial classes, as the specification describes it\<close>

text \<open>
  The words of the scan: the factorisation of every position of the parent, in order.
\<close>

definition factorised_words :: "froidure_pin \<Rightarrow> word_type list" where
  "factorised_words fp = map (fp_factorisation fp) [0..<fp_size fp]"

text \<open>
  Classifying the words one after the other: the class indices that the derived class
  returns, and the derived state after the last call.
\<close>

fun classify_all :: "'x derived_class \<Rightarrow> word_type list \<Rightarrow> 'x \<Rightarrow> (error + class_index_type list) \<times> 'x" where
  "classify_all d [] x = (Inr [], x)"
| "classify_all d (w # ws) x =
     (case word_to_class_index d w x of
        (Inl e, x1) \<Rightarrow> (Inl e, x1)
      | (Inr i, x1) \<Rightarrow>
          (case classify_all d ws x1 of
             (Inl e, x2) \<Rightarrow> (Inl e, x2)
           | (Inr is, x2) \<Rightarrow> (Inr (i # is), x2)))"

text \<open>
  The bucket of class \<open>c\<close>: the words classified into \<open>c\<close>, in the order of their
  positions. The non-trivial classes: the buckets of the classes \<open>0, ..., n - 1\<close> that
  hold at least two words.
\<close>

definition class_bucket :: "(word_type \<times> class_index_type) list \<Rightarrow> nat \<Rightarrow> word_type list" where
  "class_bucket wis c = map fst (filter (\<lambda>wi. unat (snd wi) = c) wis)"

definition non_trivial_classes_spec :: "(word_type \<times> class_index_type) list \<Rightarrow> nat \<Rightarrow> word_type list list" where
  "non_trivial_classes_spec wis n =
     filter (\<lambda>k. 2 \<le> length k) (map (class_bucket wis) [0..<n])"

text \<open>One step of the loop on the vector of buckets, for the proofs about the loop.\<close>

definition push_back_at :: "word_type \<times> class_index_type \<Rightarrow> word_type list list \<Rightarrow> word_type list list" where
  "push_back_at wi b = b[unat (snd wi) := b ! unat (snd wi) @ [fst wi]]"

subsection \<open>A derived class and a parent, for evaluation\<close>

text \<open>
  A parent with five elements; the element at position \<open>pos\<close> is the one-letter word
  \<open>[pos]\<close>. The derived class puts the letters 0 and 1 into class 0, the letter 2 into
  class 1 and the letters 3 and 4 into class 2, and refuses a word with a letter that is
  5 or more. Its state is the pair of \<^verbatim>\<open>Runner\<close>'s finished flag and a flag that says
  whether the classes are known.
\<close>

fun example_class_of :: "word_type \<Rightarrow> class_index_type" where
  "example_class_of [] = 0"
| "example_class_of (l # ls) = (if l < 2 then 0 else if l = 2 then 1 else 2)"

definition example_parent :: froidure_pin where
  "example_parent =
     \<lparr> fp_size = 5, fp_factorisation = (\<lambda>pos. [of_nat pos]),
       fp_equal_to = (\<lambda>u v. u = v), fp_nr_generators = 5 \<rparr>"

definition example_class :: "(bool \<times> bool) derived_class" where
  "example_class =
     \<lparr> word_to_class_index =
         (\<lambda>w x. if list_ex (\<lambda>l. 5 \<le> l) w then (Inl (DerivedException ''invalid letter''), x)
                else (Inr (example_class_of w), (True, True))),
       const_word_to_class_index =
         (\<lambda>w x. if snd x then example_class_of w else UNDEFINED),
       nr_classes = (\<lambda>x. (Inr 3, (True, True))),
       add_pair_impl = (\<lambda>u v x. (Inr (), x)),
       set_nr_generators_impl = CongBase_set_nr_generators_impl,
       quotient_impl = (\<lambda>x h. (Inr (Some 1), x, h(1 \<mapsto> example_parent))),
       is_quotient_obviously_infinite = CongBase_is_quotient_obviously_infinite,
       finished = fst,
       set_finished = (\<lambda>b x. (b, snd x)) \<rparr>"

text \<open>
  The object after its constructor, with the parent at address 0 of the store; and the
  same object once it has five generators.
\<close>

definition example_new :: "(bool \<times> bool) state" where
  "example_new = CongBase TWOSIDED (False, False) (Map.empty(0 \<mapsto> example_parent))"

definition example_five_generators :: "(bool \<times> bool) state" where
  "example_five_generators = snd (set_nr_generators example_class 5 example_new)"

text \<open>
  The object with five generators once the parent at address 0 is attached, and the
  object with five generators once its quotient has been asked for.
\<close>

definition example_attached :: "(bool \<times> bool) state" where
  "example_attached = set_parent_semigroup (Some 0) example_five_generators"

definition example_with_quotient :: "(bool \<times> bool) state" where
  "example_with_quotient = snd (quotient_semigroup example_class example_five_generators)"

subsection \<open>The invariant of the aliased quotient\<close>

text \<open>
  While there is no generating pair and a parent is attached, the quotient pointer is the
  parent pointer.
\<close>

definition no_pairs_alias :: "'x state \<Rightarrow> bool" where
  "no_pairs_alias s =
     (if gen_pairs s = [] \<and> parent s \<noteq> None then quotient s = parent s else True)"

section \<open>Properties\<close>

subsection \<open>Facts about the example\<close>

lemma example_new_simps:
  "nrgens example_new = UNDEFINED" "parent example_new = None" "quotient example_new = None"
  "gen_pairs example_new = []" "derived example_new = (False, False)"
  "cong_type example_new = TWOSIDED" "init_ntc_done example_new = False"
  "deleted example_new = []" "non_trivial_classes example_new = []"
  by (simp_all add: example_new_def CongBase_def)

lemma small_index_defined [simp]:
  "(0::size_t) \<noteq> UNDEFINED" "(1::size_t) \<noteq> UNDEFINED" "(2::size_t) \<noteq> UNDEFINED"
  "(5::size_t) \<noteq> UNDEFINED"
  "UNDEFINED \<noteq> (0::size_t)" "UNDEFINED \<noteq> (1::size_t)" "UNDEFINED \<noteq> (2::size_t)"
  "UNDEFINED \<noteq> (5::size_t)"
  by (simp_all add: UNDEFINED_def)

lemma example_five_generators_eq:
  "example_five_generators = example_new\<lparr>nrgens := 5\<rparr>"
  by (simp add: example_five_generators_def set_nr_generators_def nr_generators_def
      example_new_simps example_class_def CongBase_set_nr_generators_impl_def)

lemma example_five_generators_simps:
  "nrgens example_five_generators = 5" "parent example_five_generators = None"
  "quotient example_five_generators = None" "gen_pairs example_five_generators = []"
  "derived example_five_generators = (False, False)"
  "cong_type example_five_generators = TWOSIDED"
  by (simp_all add: example_five_generators_eq example_new_simps)

lemma example_attached_eq:
  "example_attached = example_new\<lparr>nrgens := 5, parent := Some 0, quotient := Some 0\<rparr>"
  by (simp add: example_attached_def set_parent_semigroup_def example_five_generators_eq
      example_new_simps)

subsection \<open>Membership under partial knowledge\<close>

text \<open>
  C1. \<open>const_contains u v\<close> is \<open>UNKNOWN\<close> when the non-blocking class index of \<open>u\<close>
  or of \<open>v\<close> is \<open>UNDEFINED\<close>; otherwise it is \<open>TRUE\<close> when the two indices are equal,
  finished or not; otherwise, with both indices defined and different, it is \<open>FALSE\<close>
  when the computation is finished and \<open>UNKNOWN\<close> when it is not.
\<close>

theorem const_contains_decision_table:
  "(const_word_to_class_index d u (derived s) = UNDEFINED
      \<or> const_word_to_class_index d v (derived s) = UNDEFINED
    \<longrightarrow> const_contains d u v s = UNKNOWN)
   \<and> (const_word_to_class_index d u (derived s) \<noteq> UNDEFINED
      \<and> const_word_to_class_index d v (derived s) \<noteq> UNDEFINED
      \<and> const_word_to_class_index d u (derived s) = const_word_to_class_index d v (derived s)
    \<longrightarrow> const_contains d u v s = TRUE)
   \<and> (const_word_to_class_index d u (derived s) \<noteq> UNDEFINED
      \<and> const_word_to_class_index d v (derived s) \<noteq> UNDEFINED
      \<and> const_word_to_class_index d u (derived s) \<noteq> const_word_to_class_index d v (derived s)
      \<and> finished d (derived s)
    \<longrightarrow> const_contains d u v s = FALSE)
   \<and> (const_word_to_class_index d u (derived s) \<noteq> UNDEFINED
      \<and> const_word_to_class_index d v (derived s) \<noteq> UNDEFINED
      \<and> const_word_to_class_index d u (derived s) \<noteq> const_word_to_class_index d v (derived s)
      \<and> \<not> finished d (derived s)
    \<longrightarrow> const_contains d u v s = UNKNOWN)"
  by (simp add: const_contains_def)

text \<open>
  The four rows of the table on the example: classes not known yet; the letters 0 and 1,
  both in class 0, before the end; the letters 0 and 3, in classes 0 and 2, after the end
  and before it.
\<close>

theorem const_contains_decision_table_witness:
  "const_contains example_class [0] [3] (example_new\<lparr>derived := (True, False)\<rparr>) = UNKNOWN
   \<and> const_contains example_class [0] [1] (example_new\<lparr>derived := (False, True)\<rparr>) = TRUE
   \<and> const_contains example_class [0] [3] (example_new\<lparr>derived := (True, True)\<rparr>) = FALSE
   \<and> const_contains example_class [0] [3] (example_new\<lparr>derived := (False, True)\<rparr>) = UNKNOWN"
  using
    const_contains_decision_table [of example_class "[0]" "example_new\<lparr>derived := (True, False)\<rparr>" "[3]"]
    const_contains_decision_table [of example_class "[0]" "example_new\<lparr>derived := (False, True)\<rparr>" "[1]"]
    const_contains_decision_table [of example_class "[0]" "example_new\<lparr>derived := (True, True)\<rparr>" "[3]"]
    const_contains_decision_table [of example_class "[0]" "example_new\<lparr>derived := (False, True)\<rparr>" "[3]"]
  by (simp add: example_class_def)

text \<open>
  C9. For every word \<open>w\<close>, \<open>contains w w\<close> returns true and leaves the whole state,
  the derived state included, as it was: whatever the derived class's
  \<^verbatim>\<open>word_to_class_index\<close> is (it may fail, change the derived state or stand for a
  computation that never ends), and whichever operand would be classified first, it has
  no part in the result.
\<close>

theorem contains_equal_words: "contains d ord w w s = (Inr True, s)"
  by (simp add: contains_def)

subsection \<open>Validation\<close>

lemma validate_letters_undefined:
  "nrgens s = UNDEFINED \<Longrightarrow> ls \<noteq> [] \<Longrightarrow> validate_letters w ls s = Inl NoGeneratorsDefined"
  by (cases ls) (simp_all add: validate_letter_def nr_generators_def)

text \<open>
  C4, as the specification states it, fails for the empty word: with no generators
  defined, \<open>validate_word []\<close> succeeds, since the loop over the letters never calls
  \<open>validate_letter\<close>, and \<open>add_pair [] []\<close> returns without an exception.
\<close>

theorem validate_empty_word_counterexample:
  "nr_generators example_new = UNDEFINED
   \<and> validate_word [] example_new = Inr ()
   \<and> add_pair example_class [] [] example_new = (Inr (), example_new)"
  by (simp add: nr_generators_def example_new_simps validate_word_def add_pair_def)

text \<open>
  C4, amended. While the number of generators is not set, \<open>validate_word w\<close> fails with
  ``no generators have been defined'' for every word \<open>w\<close> that is not empty, whatever
  its letters (the test of the number of generators comes before the test of the
  letter's range), and so does \<open>add_pair u v\<close> when \<open>u\<close> or \<open>v\<close> is not empty; the
  state is left as it was.
\<close>

theorem validate_word_no_generators:
  assumes "nr_generators s = UNDEFINED"
  shows "(w \<noteq> [] \<longrightarrow> validate_word w s = Inl NoGeneratorsDefined)
       \<and> (u \<noteq> [] \<or> v \<noteq> [] \<longrightarrow> add_pair d u v s = (Inl NoGeneratorsDefined, s))"
proof -
  from assms have n: "nrgens s = UNDEFINED" by (simp add: nr_generators_def)
  have vw: "validate_word w s = Inl NoGeneratorsDefined" if "w \<noteq> []" for w
    using that n by (simp add: validate_word_def validate_letters_undefined)
  have ve: "validate_word [] s = Inr ()" by (simp add: validate_word_def)
  have "add_pair d u v s = (Inl NoGeneratorsDefined, s)" if "u \<noteq> [] \<or> v \<noteq> []"
  proof (cases "u = []")
    case True
    with that have "v \<noteq> []" by simp
    with True show ?thesis by (simp add: add_pair_def ve vw)
  next
    case False
    then show ?thesis by (simp add: add_pair_def vw)
  qed
  with vw show ?thesis by blast
qed

theorem validate_word_no_generators_witness:
  "nr_generators example_new = UNDEFINED
   \<and> validate_word [7] example_new = Inl NoGeneratorsDefined
   \<and> add_pair example_class [] [7] example_new = (Inl NoGeneratorsDefined, example_new)"
  using validate_word_no_generators [of example_new "[7]" "[]" "[7]" example_class]
  by (simp add: nr_generators_def example_new_simps)

text \<open>
  C10. When \<open>add_pair u v\<close> throws because \<open>u\<close> fails validation, or because \<open>u\<close>
  passes and \<open>v\<close> fails, the exception is the one of the validation and the state after
  the call is the state before it: the generating pairs, the quotient, the store and the
  derived state (so \<^verbatim>\<open>Runner\<close>'s finished flag and whatever \<^verbatim>\<open>add_pair_impl\<close>
  would change) are untouched, for every derived class.
\<close>

theorem add_pair_validation_failure:
  "(validate_word u s = Inl e \<longrightarrow> add_pair d u v s = (Inl e, s))
   \<and> (validate_word u s = Inr () \<and> validate_word v s = Inl e \<longrightarrow> add_pair d u v s = (Inl e, s))"
  by (simp add: add_pair_def)

theorem add_pair_validation_failure_witness:
  "validate_word [5] example_five_generators = Inl (InvalidLetter 5 [5] 5)
   \<and> add_pair example_class [5] [0] example_five_generators
       = (Inl (InvalidLetter 5 [5] 5), example_five_generators)
   \<and> validate_word [0] example_five_generators = Inr ()
   \<and> add_pair example_class [0] [5] example_five_generators
       = (Inl (InvalidLetter 5 [5] 5), example_five_generators)"
proof -
  have a: "validate_word [5] example_five_generators = Inl (InvalidLetter 5 [5] 5)"
    by (simp add: validate_word_def validate_letter_def nr_generators_def
        example_five_generators_simps)
  have b: "validate_word [0] example_five_generators = Inr ()"
    by (simp add: validate_word_def validate_letter_def nr_generators_def
        example_five_generators_simps)
  show ?thesis
    using a b
      add_pair_validation_failure [of "[5]" example_five_generators "InvalidLetter 5 [5] 5" example_class "[0]"]
      add_pair_validation_failure [of "[0]" example_five_generators "InvalidLetter 5 [5] 5" example_class "[5]"]
    by simp
qed




subsection \<open>What the scan of the classes leaves alone\<close>

lemma ntc_scan_frame:
  "ntc_scan d fp pos s = (r, s') \<Longrightarrow>
   init_ntc_done s' = init_ntc_done s \<and> gen_pairs s' = gen_pairs s \<and> nrgens s' = nrgens s
   \<and> parent s' = parent s \<and> quotient s' = quotient s \<and> cong_type s' = cong_type s
   \<and> store s' = store s \<and> deleted s' = deleted s"
proof (induction d fp pos s rule: ntc_scan.induct)
  case (1 d fp pos s)
  show ?case
  proof (cases "pos < fp_size fp")
    case False
    with "1.prems" show ?thesis
      by (subst (asm) ntc_scan.simps) simp
  next
    case True
    obtain c x where c: "word_to_class_index d (fp_factorisation fp pos) (derived s) = (c, x)"
      by (cases "word_to_class_index d (fp_factorisation fp pos) (derived s)")
    show ?thesis
    proof (cases c)
      case (Inl e)
      with "1.prems" True c show ?thesis
        by (subst (asm) ntc_scan.simps) auto
    next
      case (Inr i)
      show ?thesis
      proof (cases "unat i < length (non_trivial_classes s)")
        case False
        with "1.prems" True c Inr show ?thesis
          by (subst (asm) ntc_scan.simps) auto
      next
        case i: True
        let ?s2 = "s\<lparr>derived := x,
                  non_trivial_classes :=
                    (non_trivial_classes s)[unat i := non_trivial_classes s ! unat i @ [fp_factorisation fp pos]]\<rparr>"
        from "1.prems" True c Inr i have "ntc_scan d fp (Suc pos) ?s2 = (r, s')"
          by (subst (asm) ntc_scan.simps) simp
        with "1.IH"[OF True refl c[symmetric] Inr refl] i
        show ?thesis by simp
      qed
    qed
  qed
qed

lemma init_non_trivial_classes_frame:
  "init_non_trivial_classes d s = (r, s') \<Longrightarrow>
   gen_pairs s' = gen_pairs s \<and> nrgens s' = nrgens s
   \<and> parent s' = parent s \<and> quotient s' = quotient s \<and> cong_type s' = cong_type s
   \<and> store s' = store s \<and> deleted s' = deleted s"
  by (auto simp: init_non_trivial_classes_def Let_def
      split: if_splits prod.splits sum.splits dest!: ntc_scan_frame)

lemma init_non_trivial_classes_done:
  "init_ntc_done s \<Longrightarrow> init_non_trivial_classes d s = (Inr (), s)"
  by (simp add: init_non_trivial_classes_def)

lemma init_non_trivial_classes_sets_done:
  "init_non_trivial_classes d s = (Inr u, s') \<Longrightarrow> init_ntc_done s'"
  by (auto simp: init_non_trivial_classes_def Let_def
      split: if_splits prod.splits sum.splits dest!: ntc_scan_frame)

subsection \<open>The quotient\<close>

lemma do_call_cong_type: "cong_type (do_call d c s) = cong_type s"
proof (cases c)
  case (Contains ord w1 w2)
  then show ?thesis
    by (auto simp: contains_def split: prod.splits sum.splits)
next
  case (Less ord w1 w2)
  then show ?thesis
    by (auto simp: less_words_def split: prod.splits sum.splits)
next
  case (SetNrGenerators n)
  then show ?thesis
    by (auto simp: set_nr_generators_def Let_def split: prod.splits sum.splits)
next
  case (AddPair u v)
  then show ?thesis
    by (auto simp: add_pair_def Let_def delete_def
      split: if_splits prod.splits sum.splits bool.splits option.splits)
next
  case CbeginNtc
  obtain r s' where a: "init_non_trivial_classes d s = (r, s')"
    by (cases "init_non_trivial_classes d s")
  from init_non_trivial_classes_frame[OF a] CbeginNtc a show ?thesis
    by (cases r) (auto simp: cbegin_ntc_def)
next
  case CendNtc
  obtain r s' where a: "init_non_trivial_classes d s = (r, s')"
    by (cases "init_non_trivial_classes d s")
  from init_non_trivial_classes_frame[OF a] CendNtc a show ?thesis
    by (cases r) (auto simp: cend_ntc_def)
next
  case NrNonTrivialClasses
  obtain r s' where a: "init_non_trivial_classes d s = (r, s')"
    by (cases "init_non_trivial_classes d s")
  from init_non_trivial_classes_frame[OF a] NrNonTrivialClasses a show ?thesis
    by (cases r) (auto simp: nr_non_trivial_classes_def)
next
  case QuotientSemigroup
  then show ?thesis
    by (auto simp: quotient_semigroup_def Let_def split: prod.splits sum.splits if_splits)
next
  case (SetParentSemigroup prnt)
  then show ?thesis
    by (auto simp: set_parent_semigroup_def Let_def)
next
  case (DerivedStep f)
  then show ?thesis by auto
qed

lemma keeps_cache_quotient:
  assumes "keeps_cache d c s" and "quotient s \<noteq> None"
  shows "quotient (do_call d c s) = quotient s"
proof (cases c)
  case (Contains ord w1 w2)
  then show ?thesis
    by (auto simp: contains_def split: prod.splits sum.splits)
next
  case (Less ord w1 w2)
  then show ?thesis
    by (auto simp: less_words_def split: prod.splits sum.splits)
next
  case (SetNrGenerators n)
  then show ?thesis
    by (auto simp: set_nr_generators_def Let_def split: prod.splits sum.splits)
next
  case (AddPair u v)
  with assms(1) show ?thesis
    by (auto simp: add_pair_def Let_def delete_def
      split: if_splits prod.splits sum.splits bool.splits option.splits)
next
  case CbeginNtc
  obtain r s' where a: "init_non_trivial_classes d s = (r, s')"
    by (cases "init_non_trivial_classes d s")
  from init_non_trivial_classes_frame[OF a] CbeginNtc a show ?thesis
    by (cases r) (auto simp: cbegin_ntc_def)
next
  case CendNtc
  obtain r s' where a: "init_non_trivial_classes d s = (r, s')"
    by (cases "init_non_trivial_classes d s")
  from init_non_trivial_classes_frame[OF a] CendNtc a show ?thesis
    by (cases r) (auto simp: cend_ntc_def)
next
  case NrNonTrivialClasses
  obtain r s' where a: "init_non_trivial_classes d s = (r, s')"
    by (cases "init_non_trivial_classes d s")
  from init_non_trivial_classes_frame[OF a] NrNonTrivialClasses a show ?thesis
    by (cases r) (auto simp: nr_non_trivial_classes_def)
next
  case QuotientSemigroup
  with assms(2) show ?thesis
    by (auto simp: quotient_semigroup_def Let_def split: prod.splits sum.splits if_splits)
next
  case (SetParentSemigroup prnt)
  with assms(1) show ?thesis
    by (auto simp: set_parent_semigroup_def Let_def)
next
  case (DerivedStep f)
  then show ?thesis by auto
qed

lemma cache_kept_quotient:
  "cache_kept d cs s \<Longrightarrow> quotient s \<noteq> None \<Longrightarrow>
   quotient (do_calls d cs s) = quotient s \<and> cong_type (do_calls d cs s) = cong_type s"
proof (induction cs arbitrary: s)
  case Nil
  then show ?case by simp
next
  case (Cons c cs)
  from Cons.prems have k: "keeps_cache d c s" and rest: "cache_kept d cs (do_call d c s)"
    by simp_all
  from keeps_cache_quotient[OF k Cons.prems(2)]
  have q: "quotient (do_call d c s) = quotient s" .
  with Cons.prems(2) have "quotient (do_call d c s) \<noteq> None" by simp
  from Cons.IH[OF rest this] q do_call_cong_type[of d c s]
  show ?case by simp
qed

text \<open>
  C5, as the specification states it, fails: the cached quotient is also replaced, with
  no pair added, when \<open>set_parent_semigroup\<close> attaches a new parent while there is no
  generating pair. The first call of \<open>quotient_semigroup\<close> stores the quotient at
  address 1; after the parent at address 0 is attached the next call returns address 0.
\<close>

theorem quotient_replaced_by_parent_counterexample:
  "quotient_semigroup example_class example_five_generators
     = (Inr (Some 1), example_with_quotient)
   \<and> gen_pairs (set_parent_semigroup (Some 0) example_with_quotient) = []
   \<and> fst (quotient_semigroup example_class (set_parent_semigroup (Some 0) example_with_quotient))
     = Inr (Some 0)"
  by (simp add: example_with_quotient_def quotient_semigroup_def type_def
      set_parent_semigroup_def example_five_generators_eq example_new_def CongBase_def
      example_class_def CongBase_is_quotient_obviously_infinite_def)

text \<open>
  C5, amended. \<open>quotient_semigroup\<close> throws ``the congruence must be two-sided''
  whenever the type is not \<open>TWOSIDED\<close>, whatever the rest of the state (finished or
  not), and ``it is infinite'' whenever \<^verbatim>\<open>is_quotient_obviously_infinite\<close> returns
  true. Otherwise, when no quotient is cached, it returns what \<^verbatim>\<open>quotient_impl\<close>
  returns and stores it; when a quotient is cached, it returns the cached pointer and
  does not call \<^verbatim>\<open>quotient_impl\<close>. After a call that returned a quotient, and after
  any sequence of later calls none of which is an \<open>add_pair\<close> that records a pair or a
  \<open>set_parent_semigroup\<close> with a new parent while there is no pair, a call returns
  the same pointer. An \<open>add_pair\<close> that records a pair leaves no cached quotient; a
  \<open>set_parent_semigroup\<close> with a new parent while there is no pair leaves the parent
  as the quotient.
\<close>

theorem quotient_semigroup_cases:
  "(type s \<noteq> TWOSIDED \<longrightarrow> quotient_semigroup d s = (Inl NotTwoSided, s))
   \<and> (type s = TWOSIDED \<and> is_quotient_obviously_infinite d (derived s) = (Inr True, x)
      \<longrightarrow> quotient_semigroup d s = (Inl QuotientInfinite, s\<lparr>derived := x\<rparr>))
   \<and> (type s = TWOSIDED \<and> is_quotient_obviously_infinite d (derived s) = (Inr False, x)
      \<and> quotient s = None \<and> quotient_impl d x (store s) = (Inr q, x2, h)
      \<longrightarrow> quotient_semigroup d s = (Inr q, s\<lparr>derived := x2, store := h, quotient := q\<rparr>))
   \<and> (type s = TWOSIDED \<and> is_quotient_obviously_infinite d (derived s) = (Inr False, x)
      \<and> quotient s \<noteq> None
      \<longrightarrow> quotient_semigroup d s = (Inr (quotient s), s\<lparr>derived := x\<rparr>))
   \<and> (quotient_semigroup d s0 = (Inr q, s) \<and> q \<noteq> None \<and> cache_kept d cs s
      \<and> is_quotient_obviously_infinite d (derived (do_calls d cs s)) = (Inr False, x)
      \<longrightarrow> quotient_semigroup d (do_calls d cs s) = (Inr q, (do_calls d cs s)\<lparr>derived := x\<rparr>))
   \<and> (add_pair d u v s = (r, s') \<and> gen_pairs s' \<noteq> gen_pairs s \<longrightarrow> quotient s' = None)
   \<and> (gen_pairs s = [] \<and> prnt \<noteq> parent s \<longrightarrow> quotient (set_parent_semigroup prnt s) = prnt)"
proof -
  have first: "quotient s = q \<and> type s = TWOSIDED"
    if "quotient_semigroup d s0 = (Inr q, s)"
    using that
    by (auto simp: quotient_semigroup_def type_def Let_def split: if_splits prod.splits sum.splits)
  have later: "quotient_semigroup d (do_calls d cs s) = (Inr q, (do_calls d cs s)\<lparr>derived := x\<rparr>)"
    if a: "quotient_semigroup d s0 = (Inr q, s)" and b: "q \<noteq> None" and c: "cache_kept d cs s"
      and i: "is_quotient_obviously_infinite d (derived (do_calls d cs s)) = (Inr False, x)"
  proof -
    from first[OF a] b have "quotient s \<noteq> None" by simp
    from cache_kept_quotient[OF c this] first[OF a]
    have "quotient (do_calls d cs s) = q" "cong_type (do_calls d cs s) = TWOSIDED"
      by (simp_all add: type_def)
    with b i show ?thesis by (auto simp: quotient_semigroup_def type_def Let_def)
  qed
  have addp: "quotient s' = None" if "add_pair d u v s = (r, s')" "gen_pairs s' \<noteq> gen_pairs s"
    using that
    by (auto simp: add_pair_def Let_def delete_def split: sum.splits if_splits bool.splits prod.splits option.splits)
  have setp: "quotient (set_parent_semigroup prnt s) = prnt" if "gen_pairs s = []" "prnt \<noteq> parent s"
    using that by (simp add: set_parent_semigroup_def)
  have cases: "(type s \<noteq> TWOSIDED \<longrightarrow> quotient_semigroup d s = (Inl NotTwoSided, s))
   \<and> (type s = TWOSIDED \<and> is_quotient_obviously_infinite d (derived s) = (Inr True, x)
      \<longrightarrow> quotient_semigroup d s = (Inl QuotientInfinite, s\<lparr>derived := x\<rparr>))
   \<and> (type s = TWOSIDED \<and> is_quotient_obviously_infinite d (derived s) = (Inr False, x)
      \<and> quotient s = None \<and> quotient_impl d x (store s) = (Inr q, x2, h)
      \<longrightarrow> quotient_semigroup d s = (Inr q, s\<lparr>derived := x2, store := h, quotient := q\<rparr>))
   \<and> (type s = TWOSIDED \<and> is_quotient_obviously_infinite d (derived s) = (Inr False, x)
      \<and> quotient s \<noteq> None
      \<longrightarrow> quotient_semigroup d s = (Inr (quotient s), s\<lparr>derived := x\<rparr>))"
    by (auto simp: quotient_semigroup_def type_def Let_def)
  from cases later addp setp show ?thesis by blast
qed

lemma example_with_quotient_eq:
  "example_with_quotient =
     example_five_generators\<lparr>store := (store example_five_generators)(1 \<mapsto> example_parent),
                             quotient := Some 1\<rparr>"
  by (simp add: example_with_quotient_def quotient_semigroup_def type_def
      example_five_generators_simps example_class_def CongBase_is_quotient_obviously_infinite_def
      example_five_generators_eq example_new_def CongBase_def)

lemma example_class_simps:
  "is_quotient_obviously_infinite example_class x = (Inr False, x)"
  "quotient_impl example_class x h = (Inr (Some 1), x, h(1 \<mapsto> example_parent))"
  "add_pair_impl example_class u v x = (Inr (), x)"
  "set_finished example_class b x = (b, snd x)"
  "nr_classes example_class x = (Inr 3, (True, True))"
  by (simp_all add: example_class_def CongBase_is_quotient_obviously_infinite_def)

lemma example_with_quotient_simps:
  "nrgens example_with_quotient = 5" "parent example_with_quotient = None"
  "quotient example_with_quotient = Some 1" "gen_pairs example_with_quotient = []"
  "derived example_with_quotient = (False, False)"
  "cong_type example_with_quotient = TWOSIDED"
  by (simp_all add: example_with_quotient_eq example_five_generators_simps)

lemma example_add_pair:
  "add_pair example_class [0] [1] example_with_quotient =
     (Inr (), example_with_quotient
        \<lparr>gen_pairs := [([0], [1])], quotient := None,
         store := (store example_with_quotient)(1 := None), deleted := [1]\<rparr>)"
  by (simp add: add_pair_def validate_word_def validate_letter_def nr_generators_def
      parent_equal_to_def has_parent_semigroup_def delete_def example_class_simps
      example_with_quotient_simps)
    (simp add: example_with_quotient_eq example_five_generators_eq example_new_def CongBase_def)

text \<open>
  On the example: a left congruence, finished; a derived class that finds the quotient
  obviously infinite; the first call, which stores the object that \<^verbatim>\<open>quotient_impl\<close>
  puts at address 1; the second call; a call after a membership test, an \<open>add_pair\<close>
  of two equal words and a refused \<open>set_nr_generators\<close>; \<open>add_pair\<close> of two
  different words, which leaves no quotient; and \<open>set_parent_semigroup\<close>, which
  leaves the parent as the quotient.
\<close>

theorem quotient_semigroup_cases_witness:
  "quotient_semigroup example_class (example_new\<lparr>cong_type := LEFT, derived := (True, True)\<rparr>)
     = (Inl NotTwoSided, example_new\<lparr>cong_type := LEFT, derived := (True, True)\<rparr>)
   \<and> quotient_semigroup (example_class\<lparr>is_quotient_obviously_infinite := (\<lambda>x. (Inr True, x))\<rparr>)
        example_five_generators
     = (Inl QuotientInfinite, example_five_generators)
   \<and> quotient_semigroup example_class example_five_generators
     = (Inr (Some 1), example_with_quotient)
   \<and> quotient_semigroup example_class example_with_quotient
     = (Inr (Some 1), example_with_quotient)
   \<and> do_calls example_class
        [Contains LeftOperandFirst [0] [3], AddPair [1] [1], SetNrGenerators 7]
        example_with_quotient
     = example_with_quotient\<lparr>derived := (True, True)\<rparr>
   \<and> quotient_semigroup example_class (example_with_quotient\<lparr>derived := (True, True)\<rparr>)
     = (Inr (Some 1), example_with_quotient\<lparr>derived := (True, True)\<rparr>)
   \<and> gen_pairs (snd (add_pair example_class [0] [1] example_with_quotient)) = [([0], [1])]
   \<and> quotient (snd (add_pair example_class [0] [1] example_with_quotient)) = None
   \<and> quotient (set_parent_semigroup (Some 0) example_with_quotient) = Some 0"
proof -
  let ?left = "example_new\<lparr>cong_type := LEFT, derived := (True, True)\<rparr>"
  let ?inf = "example_class\<lparr>is_quotient_obviously_infinite := (\<lambda>x. (Inr True, x))\<rparr>"
  let ?h = "(store example_five_generators)(1 \<mapsto> example_parent)"
  let ?s' = "snd (add_pair example_class [0] [1] example_with_quotient)"
  let ?cs = "[Contains LeftOperandFirst [0] [3], AddPair [1] [1], SetNrGenerators 7]"
  have u: "example_five_generators\<lparr>derived := (False, False)\<rparr> = example_five_generators"
    "example_with_quotient\<lparr>derived := (False, False)\<rparr> = example_with_quotient"
    by (simp_all add: example_with_quotient_eq example_five_generators_eq example_new_def
        CongBase_def)
  have w: "word_to_class_index example_class [0] x = (Inr 0, (True, True))"
    "word_to_class_index example_class [3] x = (Inr 2, (True, True))" for x
    by (simp_all add: example_class_def word_le_nat_alt word_less_nat_alt)
  have steps:
    "snd (contains example_class LeftOperandFirst [0] [3] example_with_quotient)
       = example_with_quotient\<lparr>derived := (True, True)\<rparr>"
    "snd (add_pair example_class [1] [1] (example_with_quotient\<lparr>derived := (True, True)\<rparr>))
       = example_with_quotient\<lparr>derived := (True, True)\<rparr>"
    "snd (set_nr_generators example_class 7 (example_with_quotient\<lparr>derived := (True, True)\<rparr>))
       = example_with_quotient\<lparr>derived := (True, True)\<rparr>"
    by (simp_all add: contains_def w add_pair_def validate_word_def validate_letter_def
        nr_generators_def set_nr_generators_def example_with_quotient_simps)
  have calls: "do_calls example_class ?cs example_with_quotient
      = example_with_quotient\<lparr>derived := (True, True)\<rparr>"
    by (simp add: steps)
  have kept: "cache_kept example_class ?cs example_with_quotient"
    "cache_kept example_class [] example_with_quotient"
    by (simp_all add: steps)
  note all = quotient_semigroup_cases
    [where d = example_class and ?x2.0 = "(False, False)" and u = "[0]" and v = "[1]"
      and r = "Inr ()" and s' = ?s' and prnt = "Some 0" and ?s0.0 = example_five_generators]
  have a: "quotient_semigroup example_class ?left = (Inl NotTwoSided, ?left)"
    using all [where s = ?left and x = "(True, True)" and q = None and h = "store ?left" and cs = "[]"]
    by (simp add: type_def)
  have b: "quotient_semigroup ?inf example_five_generators = (Inl QuotientInfinite, example_five_generators)"
    using quotient_semigroup_cases
      [where d = ?inf and s = example_five_generators and x = "(False, False)" and q = None
        and ?x2.0 = "(False, False)" and h = "store example_five_generators" and cs = "[]"
        and u = "[0]" and v = "[1]" and r = "Inr ()" and s' = ?s' and prnt = "Some 0"
        and ?s0.0 = example_five_generators]
    by (simp add: type_def example_five_generators_simps u)
  have c: "quotient_semigroup example_class example_five_generators = (Inr (Some 1), example_with_quotient)"
    using all [where s = example_five_generators and x = "(False, False)" and q = "Some 1"
        and h = ?h and cs = "[]"]
    by (simp add: type_def example_five_generators_simps example_class_simps example_with_quotient_eq)
  have d: "quotient_semigroup example_class example_with_quotient = (Inr (Some 1), example_with_quotient)
      \<and> quotient ?s' = None
      \<and> quotient (set_parent_semigroup (Some 0) example_with_quotient) = Some 0"
    using c example_add_pair kept(2)
      all [where s = example_with_quotient and x = "(False, False)" and q = "Some 1"
        and h = ?h and cs = "[]"]
    by (simp add: type_def example_with_quotient_simps example_class_simps u)
  have e: "quotient_semigroup example_class (example_with_quotient\<lparr>derived := (True, True)\<rparr>)
      = (Inr (Some 1), example_with_quotient\<lparr>derived := (True, True)\<rparr>)"
    using c kept(1) calls
      all [where s = example_with_quotient and x = "(True, True)" and q = "Some 1"
        and h = ?h and cs = ?cs]
    by (simp add: example_class_simps)
  from a b c d e calls example_add_pair show ?thesis by simp
qed

subsection \<open>Ownership of the quotient\<close>

text \<open>
  C2. The destructor tests \<^verbatim>\<open>_parent != _quotient\<close> before it deletes the quotient;
  \<open>add_pair\<close> deletes the quotient without that test. On the object whose quotient is
  its parent (address 0, attached while there was no pair), \<open>add_pair [0] [1]\<close>
  records the pair and deletes the object at address 0: the parent, which the object
  does not own, leaves the store, and the parent pointer still points to it.
\<close>

theorem add_pair_deletes_aliased_parent:
  "parent example_attached = Some 0 \<and> quotient example_attached = Some 0
   \<and> deleted example_attached = []
   \<and> deleted (destructor example_attached) = []
   \<and> fst (add_pair example_class [0] [1] example_attached) = Inr ()
   \<and> gen_pairs (snd (add_pair example_class [0] [1] example_attached)) = [([0], [1])]
   \<and> deleted (snd (add_pair example_class [0] [1] example_attached)) = [0]
   \<and> store (snd (add_pair example_class [0] [1] example_attached)) 0 = None
   \<and> parent (snd (add_pair example_class [0] [1] example_attached)) = Some 0"
  by (simp add: example_attached_eq example_new_simps add_pair_def validate_word_def
      validate_letter_def nr_generators_def parent_equal_to_def has_parent_semigroup_def
      parent_semigroup_def deref_def example_new_def CongBase_def example_parent_def
      delete_def example_class_def destructor_def)

text \<open>
  The destructor, in general: it deletes nothing when the quotient is the parent, and
  it deletes an owned quotient once. \<open>add_pair\<close>, when it records a pair, deletes the
  quotient it finds, owned or not.
\<close>

lemma destructor_aliased:
  "quotient s = parent s \<Longrightarrow> destructor s = s"
  by (simp add: destructor_def)

lemma destructor_owned:
  "quotient s = Some q \<Longrightarrow> parent s \<noteq> Some q \<Longrightarrow>
   deleted (destructor s) = deleted s @ [q] \<and> store (destructor s) q = None"
  by (auto simp: destructor_def delete_def)

lemma add_pair_deletes_quotient:
  "add_pair d u v s = (r, s') \<Longrightarrow> gen_pairs s' \<noteq> gen_pairs s \<Longrightarrow> quotient s = Some q \<Longrightarrow>
   deleted s' = deleted s @ [q] \<and> store s' q = None \<and> quotient s' = None"
  by (auto simp: add_pair_def Let_def delete_def
      split: if_splits prod.splits sum.splits bool.splits)

subsection \<open>The aliased quotient\<close>

lemma add_pair_gen_pairs:
  "add_pair d u v s = (r, s') \<Longrightarrow> s' = s \<or> gen_pairs s' \<noteq> []"
  by (auto simp: add_pair_def Let_def delete_def
      split: if_splits prod.splits sum.splits bool.splits option.splits)

lemma do_call_alias:
  assumes "no_pairs_alias s" shows "no_pairs_alias (do_call d c s)"
proof (cases c)
  case (Contains ord w1 w2)
  with assms show ?thesis
    by (auto simp: contains_def no_pairs_alias_def split: prod.splits sum.splits)
next
  case (Less ord w1 w2)
  with assms show ?thesis
    by (auto simp: less_words_def no_pairs_alias_def split: prod.splits sum.splits)
next
  case (SetNrGenerators n)
  with assms show ?thesis
    by (auto simp: set_nr_generators_def no_pairs_alias_def Let_def split: prod.splits sum.splits)
next
  case (AddPair u v)
  obtain r s' where a: "add_pair d u v s = (r, s')" by (cases "add_pair d u v s")
  from add_pair_gen_pairs[OF a] assms AddPair a show ?thesis
    by (auto simp: no_pairs_alias_def)
next
  case CbeginNtc
  obtain r s' where a: "init_non_trivial_classes d s = (r, s')" by (cases "init_non_trivial_classes d s")
  from init_non_trivial_classes_frame[OF a] assms CbeginNtc a show ?thesis
    by (cases r) (auto simp: no_pairs_alias_def cbegin_ntc_def)
next
  case CendNtc
  obtain r s' where a: "init_non_trivial_classes d s = (r, s')" by (cases "init_non_trivial_classes d s")
  from init_non_trivial_classes_frame[OF a] assms CendNtc a show ?thesis
    by (cases r) (auto simp: no_pairs_alias_def cend_ntc_def)
next
  case NrNonTrivialClasses
  obtain r s' where a: "init_non_trivial_classes d s = (r, s')" by (cases "init_non_trivial_classes d s")
  from init_non_trivial_classes_frame[OF a] assms NrNonTrivialClasses a show ?thesis
    by (cases r) (auto simp: no_pairs_alias_def nr_non_trivial_classes_def)
next
  case QuotientSemigroup
  with assms show ?thesis
    by (auto simp: quotient_semigroup_def no_pairs_alias_def Let_def split: prod.splits sum.splits if_splits)
next
  case (SetParentSemigroup prnt)
  with assms show ?thesis
    by (auto simp: set_parent_semigroup_def no_pairs_alias_def Let_def)
next
  case (DerivedStep f)
  with assms show ?thesis
    by (auto simp: no_pairs_alias_def)
qed

lemma do_calls_alias: "no_pairs_alias s \<Longrightarrow> no_pairs_alias (do_calls d cs s)"
  by (induction cs arbitrary: s) (simp_all add: do_call_alias)

lemma CongBase_alias: "no_pairs_alias (CongBase typ x h)"
  by (simp add: no_pairs_alias_def CongBase_def)

text \<open>
  C6. In every state that a sequence of calls reaches from the constructor's and that
  has no generating pair, attaching the parent \<open>Some a\<close> leaves the parent pointer and
  the quotient pointer both equal to \<open>Some a\<close>; the destructor then deletes nothing and
  leaves the store as it is; and \<open>quotient_semigroup\<close>, for a two-sided congruence
  that is not obviously infinite, returns \<open>Some a\<close>, after which the destructor still
  deletes nothing.
\<close>

theorem attach_parent_without_pairs:
  assumes "s = do_calls d cs (CongBase typ x0 h0)" and "gen_pairs s = []"
    and "s1 = set_parent_semigroup (Some a) s"
  shows "parent s1 = Some a \<and> quotient s1 = Some a
       \<and> destructor s1 = s1
       \<and> (type s1 = TWOSIDED \<and> is_quotient_obviously_infinite d (derived s1) = (Inr False, x)
          \<longrightarrow> quotient_semigroup d s1 = (Inr (Some a), s1\<lparr>derived := x\<rparr>)
              \<and> destructor (s1\<lparr>derived := x\<rparr>) = s1\<lparr>derived := x\<rparr>)"
proof -
  have "no_pairs_alias s"
    unfolding assms(1) by (rule do_calls_alias) (rule CongBase_alias)
  with assms(2) have inv: "parent s = Some a \<Longrightarrow> quotient s = Some a"
    by (simp add: no_pairs_alias_def)
  have p: "parent s1 = Some a" and q: "quotient s1 = Some a"
    using inv assms(2) by (auto simp: assms(3) set_parent_semigroup_def Let_def)
  have d1: "destructor s1 = s1" using p q by (simp add: destructor_def)
  have d2: "destructor (s1\<lparr>derived := x\<rparr>) = s1\<lparr>derived := x\<rparr>"
    using p q by (simp add: destructor_def)
  have "quotient_semigroup d s1 = (Inr (Some a), s1\<lparr>derived := x\<rparr>)"
    if "type s1 = TWOSIDED" "is_quotient_obviously_infinite d (derived s1) = (Inr False, x)"
    using that q by (simp add: quotient_semigroup_def)
  with p q d1 d2 show ?thesis by blast
qed

theorem attach_parent_without_pairs_witness:
  "gen_pairs example_five_generators = []
   \<and> parent example_attached = Some 0 \<and> quotient example_attached = Some 0
   \<and> destructor example_attached = example_attached
   \<and> quotient_semigroup example_class example_attached = (Inr (Some 0), example_attached)"
proof -
  have r: "example_five_generators = do_calls example_class [SetNrGenerators 5] (CongBase TWOSIDED (False, False) (Map.empty(0 \<mapsto> example_parent)))"
    by (simp add: example_five_generators_def example_new_def)
  have i: "is_quotient_obviously_infinite example_class (derived example_attached) = (Inr False, (False, False))"
    by (simp add: example_class_def CongBase_is_quotient_obviously_infinite_def example_attached_eq example_new_simps)
  have t: "type example_attached = TWOSIDED"
    by (simp add: type_def example_attached_eq example_new_simps)
  have e: "example_attached\<lparr>derived := (False, False)\<rparr> = example_attached"
    by (simp add: example_attached_eq example_new_def CongBase_def)
  from attach_parent_without_pairs [OF r example_five_generators_simps(4) example_attached_def, of "(False, False)"] i t e
  show ?thesis by (simp add: example_five_generators_simps)
qed

subsection \<open>The non-trivial classes\<close>

lemma fold_push_buckets:
  "\<forall>wi\<in>set wis. unat (snd wi) < length b \<Longrightarrow>
   fold push_back_at wis b = map (\<lambda>c. b ! c @ class_bucket wis c) [0..<length b]"
proof (induction wis arbitrary: b)
  case Nil
  show ?case by (simp add: class_bucket_def map_nth)
next
  case (Cons wi wis)
  obtain w i where wi: "wi = (w, i)" by (cases wi)
  from Cons.prems have i: "unat i < length b" by (simp add: wi)
  have len: "length (push_back_at wi b) = length b" by (simp add: push_back_at_def)
  from Cons.prems have "\<forall>p\<in>set wis. unat (snd p) < length (push_back_at wi b)"
    by (simp add: len)
  then have "fold push_back_at wis (push_back_at wi b)
      = map (\<lambda>c. push_back_at wi b ! c @ class_bucket wis c) [0..<length (push_back_at wi b)]"
    by (rule Cons.IH)
  also have "\<dots> = map (\<lambda>c. b ! c @ class_bucket (wi # wis) c) [0..<length b]"
    unfolding len
    by (rule map_cong) (auto simp: push_back_at_def wi class_bucket_def nth_list_update)
  finally show ?case by simp
qed

lemma ntc_scan_fold:
  "classify_all d (map (fp_factorisation fp) [pos..<fp_size fp]) (derived s) = (Inr is, x1) \<Longrightarrow>
   \<forall>i\<in>set is. unat i < length (non_trivial_classes s) \<Longrightarrow>
   ntc_scan d fp pos s =
     (Inr (), s\<lparr>derived := x1,
               non_trivial_classes :=
                 fold push_back_at (zip (map (fp_factorisation fp) [pos..<fp_size fp]) is)
                   (non_trivial_classes s)\<rparr>)"
proof (induction d fp pos s arbitrary: "is" rule: ntc_scan.induct)
  case (1 d fp pos s)
  show ?case
  proof (cases "pos < fp_size fp")
    case False
    with "1.prems" show ?thesis
      by (subst ntc_scan.simps) simp
  next
    case True
    then have upt: "[pos..<fp_size fp] = pos # [Suc pos..<fp_size fp]"
      by (simp add: upt_conv_Cons)
    let ?w = "fp_factorisation fp pos"
    from "1.prems"(1) obtain i x js where
      c1: "word_to_class_index d ?w (derived s) = (Inr i, x)" and
      c2: "classify_all d (map (fp_factorisation fp) [Suc pos..<fp_size fp]) x = (Inr js, x1)" and
      js: "is = i # js"
      unfolding upt by (auto split: prod.splits sum.splits)
    from "1.prems"(2) js have i: "unat i < length (non_trivial_classes s)"
      and jsb: "\<forall>j\<in>set js. unat j < length (non_trivial_classes s)" by simp_all
    let ?s2 = "s\<lparr>derived := x,
                  non_trivial_classes :=
                    (non_trivial_classes s)[unat i := non_trivial_classes s ! unat i @ [?w]]\<rparr>"
    have "ntc_scan d fp (Suc pos) ?s2 =
       (Inr (), ?s2\<lparr>derived := x1,
               non_trivial_classes :=
                 fold push_back_at (zip (map (fp_factorisation fp) [Suc pos..<fp_size fp]) js)
                   (non_trivial_classes ?s2)\<rparr>)"
      using "1.IH"[OF True refl c1[symmetric] refl refl, of js] i c2 jsb
      by simp
    then show ?thesis
      using True c1 i
      by (subst ntc_scan.simps) (simp add: upt js push_back_at_def)
  qed
qed

lemma POSITIVE_INFINITY_too_long: "vector_max_size < unat POSITIVE_INFINITY"
proof -
  have "(- 2 :: size_t) = 18446744073709551614" by simp
  then show ?thesis by (simp add: POSITIVE_INFINITY_def vector_max_size_def)
qed

text \<open>
  When \<^verbatim>\<open>nr_classes\<close> returns \<^verbatim>\<open>POSITIVE_INFINITY\<close> on a first request, the case
  that the assertion of the debug build names, the release build throws the length error
  of \<^verbatim>\<open>assign\<close>; the flag is set and no class is stored.
\<close>

lemma init_non_trivial_classes_infinite:
  "\<not> init_ntc_done s \<Longrightarrow> parent s \<noteq> None \<Longrightarrow>
   nr_classes d (derived s) = (Inr POSITIVE_INFINITY, x) \<Longrightarrow>
   init_non_trivial_classes d s = (Inl LengthError, s\<lparr>init_ntc_done := True, derived := x\<rparr>)"
  by (simp add: init_non_trivial_classes_def POSITIVE_INFINITY_too_long)

text \<open>
  C7. On the first request (\<open>init_ntc_done\<close> is false) with a parent attached and live
  in the store, a number of classes \<open>n\<close> that is finite (not \<^verbatim>\<open>POSITIVE_INFINITY\<close>)
  and within what a vector can hold, and every word of the scan classified by the derived
  class into a class below \<open>n\<close>: \<open>init_non_trivial_classes\<close> returns, sets the flag,
  leaves the derived state of the last classification, and its groups are those of the
  specification: for each class from 0 to \<open>n - 1\<close> in turn, the factorised words of that
  class in the order of their positions, kept when there are two or more. The iterators
  \<open>cbegin_ntc\<close> and \<open>cend_ntc\<close> and the count \<open>nr_non_trivial_classes\<close>, called
  in that state, run this scan and return these groups and their number.
\<close>

theorem init_non_trivial_classes_scan:
  assumes "\<not> init_ntc_done s" and "parent s = Some a" and "store s a = Some fp"
    and "nr_classes d (derived s) = (Inr n, x0)"
    and "n \<noteq> POSITIVE_INFINITY" and "unat n \<le> vector_max_size"
    and "classify_all d (factorised_words fp) x0 = (Inr is, x1)"
    and "\<forall>i\<in>set is. unat i < unat n"
    and "groups = non_trivial_classes_spec (zip (factorised_words fp) is) (unat n)"
    and "s' = s\<lparr>init_ntc_done := True, derived := x1, non_trivial_classes := groups\<rparr>"
  shows "init_non_trivial_classes d s = (Inr (), s')
       \<and> cbegin_ntc d s = (Inr groups, s')
       \<and> cend_ntc d s = (Inr [], s')
       \<and> nr_non_trivial_classes d s = (Inr (of_nat (length groups)), s')"
proof -
  let ?s2 = "s\<lparr>init_ntc_done := True, derived := x0, non_trivial_classes := replicate (unat n) []\<rparr>"
  let ?wis = "zip (factorised_words fp) is"
  have bound: "\<forall>wi\<in>set ?wis. unat (snd wi) < length (replicate (unat n) ([]::word_type list))"
    using assms(8) by (auto dest: set_zip_rightD)
  have buckets: "fold push_back_at ?wis (replicate (unat n) []) = map (class_bucket ?wis) [0..<unat n]"
    unfolding fold_push_buckets[OF bound] by simp
  have "ntc_scan d fp 0 ?s2 =
     (Inr (), ?s2\<lparr>derived := x1,
                 non_trivial_classes :=
                   fold push_back_at (zip (map (fp_factorisation fp) [0..<fp_size fp]) is)
                     (non_trivial_classes ?s2)\<rparr>)"
    using assms(7,8) by (intro ntc_scan_fold) (simp_all add: factorised_words_def)
  then have scan: "ntc_scan d fp 0 ?s2 =
     (Inr (), s\<lparr>init_ntc_done := True, derived := x1,
                non_trivial_classes := map (class_bucket ?wis) [0..<unat n]\<rparr>)"
    using buckets by (simp add: factorised_words_def)
  have keep: "(\<not> length k \<le> Suc 0) = (2 \<le> length k)" for k :: "word_type list"
    by arith
  from assms(6) have fits: "\<not> vector_max_size < unat n" by simp
  from assms(2,3) have "deref (parent ?s2) (store ?s2) = Inr fp"
    by (simp add: deref_def)
  with assms(1,2,4) scan fits have init: "init_non_trivial_classes d s = (Inr (), s')"
    by (simp add: init_non_trivial_classes_def non_trivial_classes_spec_def keep assms(9,10))
  have "non_trivial_classes s' = groups" by (simp add: assms(10))
  with init show ?thesis
    by (simp add: cbegin_ntc_def cend_ntc_def nr_non_trivial_classes_def)
qed

lemma example_attached_store: "store example_attached 0 = Some example_parent"
  by (simp add: example_attached_eq example_new_def CongBase_def)

lemma example_words: "factorised_words example_parent = [[0], [1], [2], [3], [4]]"
  by (simp add: factorised_words_def example_parent_def upt_rec)

text \<open>
  The parent of five elements with the classes \<open>{[0], [1]}\<close>, \<open>{[2]}\<close> and
  \<open>{[3], [4]}\<close>: two groups, in the order of the positions, and no singleton.
\<close>

theorem init_non_trivial_classes_scan_witness:
  "init_non_trivial_classes example_class example_attached =
     (Inr (), example_attached\<lparr>init_ntc_done := True, derived := (True, True),
                non_trivial_classes := [[[0], [1]], [[3], [4]]]\<rparr>)
   \<and> cbegin_ntc example_class example_attached =
     (Inr [[[0], [1]], [[3], [4]]],
      example_attached\<lparr>init_ntc_done := True, derived := (True, True),
                non_trivial_classes := [[[0], [1]], [[3], [4]]]\<rparr>)
   \<and> cend_ntc example_class example_attached =
     (Inr [],
      example_attached\<lparr>init_ntc_done := True, derived := (True, True),
                non_trivial_classes := [[[0], [1]], [[3], [4]]]\<rparr>)
   \<and> nr_non_trivial_classes example_class example_attached =
     (Inr 2,
      example_attached\<lparr>init_ntc_done := True, derived := (True, True),
                non_trivial_classes := [[[0], [1]], [[3], [4]]]\<rparr>)"
proof -
  have c: "classify_all example_class (factorised_words example_parent) (True, True) = (Inr [0, 0, 1, 2, 2], (True, True))"
    by (simp add: example_words example_class_def word_le_nat_alt word_less_nat_alt)
  have n: "nr_classes example_class (derived example_attached) = (Inr 3, (True, True))"
    by (simp add: example_class_def)
  have f: "(3 :: size_t) \<noteq> POSITIVE_INFINITY" "unat (3 :: size_t) \<le> vector_max_size"
    by (simp_all add: POSITIVE_INFINITY_def vector_max_size_def)
  have b: "\<forall>i\<in>set [0, 0, 1, 2, 2 :: size_t]. unat i < unat (3 :: size_t)"
    by simp
  have r: "[[[0], [1]], [[3], [4]]]
      = non_trivial_classes_spec (zip (factorised_words example_parent) [0, 0, 1, 2, 2]) (unat (3 :: size_t))"
    by (simp add: example_words non_trivial_classes_spec_def class_bucket_def upt_rec)
  have "\<not> init_ntc_done example_attached" "parent example_attached = Some 0"
    by (simp_all add: example_attached_eq example_new_simps)
  from init_non_trivial_classes_scan [OF this example_attached_store n f c b r refl]
  show ?thesis by simp
qed

lemma do_call_ntc:
  assumes "init_ntc_done s"
  shows "init_ntc_done (do_call d c s)
       \<and> non_trivial_classes (do_call d c s) = non_trivial_classes s"
proof (cases c)
  case (Contains ord w1 w2)
  with assms show ?thesis
    by (auto simp: contains_def split: prod.splits sum.splits)
next
  case (Less ord w1 w2)
  with assms show ?thesis
    by (auto simp: less_words_def split: prod.splits sum.splits)
next
  case (SetNrGenerators n)
  with assms show ?thesis
    by (auto simp: set_nr_generators_def Let_def split: prod.splits sum.splits)
next
  case (AddPair u v)
  with assms show ?thesis
    by (auto simp: add_pair_def Let_def delete_def
      split: if_splits prod.splits sum.splits bool.splits option.splits)
next
  case CbeginNtc
  with assms show ?thesis by (simp add: cbegin_ntc_def init_non_trivial_classes_done)
next
  case CendNtc
  with assms show ?thesis by (simp add: cend_ntc_def init_non_trivial_classes_done)
next
  case NrNonTrivialClasses
  with assms show ?thesis by (simp add: nr_non_trivial_classes_def init_non_trivial_classes_done)
next
  case QuotientSemigroup
  with assms show ?thesis
    by (auto simp: quotient_semigroup_def Let_def split: prod.splits sum.splits if_splits)
next
  case (SetParentSemigroup prnt)
  with assms show ?thesis
    by (auto simp: set_parent_semigroup_def Let_def)
next
  case (DerivedStep f)
  with assms show ?thesis by auto
qed

lemma do_calls_ntc:
  "init_ntc_done s \<Longrightarrow>
   init_ntc_done (do_calls d cs s)
   \<and> non_trivial_classes (do_calls d cs s) = non_trivial_classes s"
proof (induction cs arbitrary: s)
  case Nil
  then show ?case by simp
next
  case (Cons c cs)
  from do_call_ntc[OF Cons.prems, of d c] Cons.IH[of "do_call d c s"]
  show ?case by simp
qed

text \<open>
  C8. After a call of \<open>init_non_trivial_classes\<close> that returned, and after any
  sequence of later calls (more pairs, a new parent, the quotient, membership tests,
  steps of the derived class), the iterators and the count return the grouping of that
  first call and leave the whole state as it is: the derived state does not change, so
  no classification runs, and nothing resets the flag.
\<close>

theorem non_trivial_classes_cached:
  assumes "init_non_trivial_classes d s0 = (Inr (), s)" and "s' = do_calls d cs s"
  shows "init_non_trivial_classes d s' = (Inr (), s')
       \<and> cbegin_ntc d s' = (Inr (non_trivial_classes s), s')
       \<and> cend_ntc d s' = (Inr [], s')
       \<and> nr_non_trivial_classes d s' = (Inr (of_nat (length (non_trivial_classes s))), s')"
proof -
  from assms(1) have "init_ntc_done s" by (rule init_non_trivial_classes_sets_done)
  from do_calls_ntc[OF this, of d cs]
  have flag: "init_ntc_done s'" and same: "non_trivial_classes s' = non_trivial_classes s"
    by (simp_all add: assms(2))
  from flag have "init_non_trivial_classes d s' = (Inr (), s')"
    by (rule init_non_trivial_classes_done)
  then show ?thesis
    by (simp add: cbegin_ntc_def cend_ntc_def nr_non_trivial_classes_def same)
qed

text \<open>
  On the example: the scan of the five elements, then a membership test, a new pair and
  a step of the derived class that resets its state; the groups and their number are
  those of the scan.
\<close>

lemma three_buckets:
  "replicate 3 x = [x, x, x]" "(a # b # c # xs)[2 := y] = a # b # y # xs"
  by (simp_all add: numeral_3_eq_3 numeral_2_eq_2)

lemma example_scan:
  "init_non_trivial_classes example_class example_attached =
     (Inr (), example_attached\<lparr>init_ntc_done := True, derived := (True, True),
                non_trivial_classes := [[[0], [1]], [[3], [4]]]\<rparr>)"
  by (simp add: init_non_trivial_classes_def example_attached_eq example_new_def CongBase_def
      example_class_def deref_def ntc_scan.simps example_parent_def vector_max_size_def
      word_le_nat_alt word_less_nat_alt three_buckets)

theorem non_trivial_classes_cached_witness:
  "init_non_trivial_classes example_class example_attached =
     (Inr (), example_attached\<lparr>init_ntc_done := True, derived := (True, True),
                non_trivial_classes := [[[0], [1]], [[3], [4]]]\<rparr>)
   \<and> fst (cbegin_ntc example_class
         (do_calls example_class [Contains LeftOperandFirst [0] [3], AddPair [0] [1], DerivedStep (\<lambda>x. (False, False))]
            (example_attached\<lparr>init_ntc_done := True, derived := (True, True),
                non_trivial_classes := [[[0], [1]], [[3], [4]]]\<rparr>)))
       = Inr [[[0], [1]], [[3], [4]]]
   \<and> fst (nr_non_trivial_classes example_class
         (do_calls example_class [Contains LeftOperandFirst [0] [3], AddPair [0] [1], DerivedStep (\<lambda>x. (False, False))]
            (example_attached\<lparr>init_ntc_done := True, derived := (True, True),
                non_trivial_classes := [[[0], [1]], [[3], [4]]]\<rparr>)))
       = Inr 2"
  using example_scan
    non_trivial_classes_cached [OF example_scan refl,
      of "[Contains LeftOperandFirst [0] [3], AddPair [0] [1], DerivedStep (\<lambda>x. (False, False))]"]
  by simp

end
